theory Spec2Isabelle
  imports Main "HOL-Library.Sublist"
begin

section \<open>Python values used by the program\<close>

text \<open>
  A Python \<open>str\<close> is modelled as a \<open>string\<close>: one \<open>char\<close> per code point, so the model
  covers the texts all of whose code points are below 256. The fences, braces, brackets
  and the patterns the program searches for are ASCII.

  A raised exception is a value: its class name (\<open>type(e).__name__\<close>) and its text
  (\<open>str(e)\<close>). A computation that may raise returns \<open>py_exception + 'a\<close>, \<open>Inl\<close> being
  the raise.
\<close>

datatype py_exception = PyException (exc_type: string) (exc_str: string)

text \<open>\<open>sub in s\<close> for strings: \<open>sub\<close> occurs in \<open>s\<close> as a contiguous piece.\<close>

fun str_contains :: "string \<Rightarrow> string \<Rightarrow> bool" where
  "str_contains sub [] = (sub = [])"
| "str_contains sub (c # cs) = (prefix sub (c # cs) \<or> str_contains sub cs)"

text \<open>
  \<open>str.lower()\<close> on code points below 256: the ASCII capitals and the Latin-1 capitals
  (\<open>0xC0\<close> to \<open>0xDE\<close>, the multiplication sign \<open>0xD7\<close> apart) move up by 32.
\<close>

definition chr_lower :: "char \<Rightarrow> char" where
  "chr_lower c =
     (let n = (of_char c :: nat) in
      if (65 \<le> n \<and> n \<le> 90) \<or> (192 \<le> n \<and> n \<le> 222 \<and> n \<noteq> 215)
      then char_of (n + 32) else c)"

definition str_lower :: "string \<Rightarrow> string" where
  "str_lower s = map chr_lower s"

text \<open>
  \<open>str.strip()\<close> removes leading and trailing whitespace. Below 256 the code points
  for which \<open>str.isspace\<close> holds are 9 to 13, 28 to 32, \<open>0x85\<close> and \<open>0xA0\<close>.
\<close>

definition isspace :: "char \<Rightarrow> bool" where
  "isspace c =
     (let n = (of_char c :: nat) in (9 \<le> n \<and> n \<le> 13) \<or> (28 \<le> n \<and> n \<le> 32) \<or> n = 133 \<or> n = 160)"

definition str_strip :: "string \<Rightarrow> string" where
  "str_strip s = rev (dropWhile isspace (rev (dropWhile isspace s)))"

text \<open>
  \<open>s.split(sep)\<close>: the pieces between the occurrences of \<open>sep\<close>, found from the left
  and not overlapping. An empty separator raises \<open>ValueError\<close>.
\<close>

function splits :: "string \<Rightarrow> string \<Rightarrow> string list" where
  "splits sep s =
     (if s = [] \<or> sep = [] then [s]
      else if prefix sep s then [] # splits sep (drop (length sep) s)
      else (case splits sep (tl s) of
              p # ps \<Rightarrow> (hd s # p) # ps
            | [] \<Rightarrow> [[hd s]]))"
  by pat_completeness auto
termination
  by (relation "measure (\<lambda>(sep, s). length s)") auto

definition str_split :: "string \<Rightarrow> string \<Rightarrow> py_exception + string list" where
  "str_split sep s =
     (if sep = [] then Inl (PyException ''ValueError'' ''empty separator'')
      else Inr (splits sep s))"

text \<open>\<open>xs[i]\<close>: a negative index counts from the end; out of range raises \<open>IndexError\<close>.\<close>

definition list_index :: "'a list \<Rightarrow> int \<Rightarrow> py_exception + 'a" where
  "list_index xs i =
     (let n = int (length xs); j = (if i < 0 then i + n else i)
      in if 0 \<le> j \<and> j < n then Inr (xs ! nat j)
         else Inl (PyException ''IndexError'' ''list index out of range''))"

text \<open>
  \<open>s.find(sub)\<close> and \<open>s.rfind(sub)\<close>: where the first and the last occurrence of \<open>sub\<close>
  start, \<open>-1\<close> when there is none.
\<close>

fun str_find :: "string \<Rightarrow> string \<Rightarrow> int" where
  "str_find sub [] = (if sub = [] then 0 else - 1)"
| "str_find sub (c # cs) =
     (if prefix sub (c # cs) then 0
      else (let i = str_find sub cs in if i < 0 then - 1 else i + 1))"

fun str_rfind :: "string \<Rightarrow> string \<Rightarrow> int" where
  "str_rfind sub [] = (if sub = [] then 0 else - 1)"
| "str_rfind sub (c # cs) =
     (let i = str_rfind sub cs in
      if 0 \<le> i then i + 1 else if prefix sub (c # cs) then 0 else - 1)"

text \<open>
  \<open>s[i:j]\<close>: a negative bound counts from the end, both bounds are clipped to the
  string, and the slice is empty when the lower bound is not below the upper one.
\<close>

definition str_slice :: "string \<Rightarrow> int \<Rightarrow> int \<Rightarrow> string" where
  "str_slice s i j =
     (let n = int (length s);
          lo = (if i < 0 then max 0 (i + n) else min i n);
          hi = (if j < 0 then max 0 (j + n) else min j n)
      in take (nat (hi - lo)) (drop (nat lo) s))"

section \<open>Recovering the JSON text of a reply (Home.py, lines 380-394 and 469-482)\<close>

text \<open>
  The career tab and the recommender tab run the same statements on the reply; only
  the bounding characters (\<open>{\<close> and \<open>}\<close>, \<open>[\<close> and \<open>]\<close>) and the label of the error
  shown differ. First the fences (lines 380-386 and 469-475).
\<close>

definition fence_step :: "string \<Rightarrow> py_exception + string" where
  "fence_step response =
     (let json_str = str_strip response in
      if str_contains ''```json'' json_str then
        (case str_split ''```json'' json_str of
           Inl e \<Rightarrow> Inl e
         | Inr tagged \<Rightarrow>
             (case list_index tagged 1 of
                Inl e \<Rightarrow> Inl e
              | Inr after \<Rightarrow>
                  (case str_split ''```'' after of
                     Inl e \<Rightarrow> Inl e
                   | Inr pieces \<Rightarrow>
                       (case list_index pieces 0 of
                          Inl e \<Rightarrow> Inl e
                        | Inr block \<Rightarrow> Inr (str_strip block)))))
      else if str_contains ''```'' json_str then
        (case str_split ''```'' json_str of
           Inl e \<Rightarrow> Inl e
         | Inr parts \<Rightarrow>
             if 2 \<le> length parts then
               (case list_index parts 1 of
                  Inl e \<Rightarrow> Inl e
                | Inr segment \<Rightarrow> Inr (str_strip segment))
             else Inr json_str)
      else Inr json_str)"

text \<open>Then the scan for the bounding characters (lines 388-391 and 477-480).\<close>

definition delimiter_scan :: "char \<Rightarrow> char \<Rightarrow> string \<Rightarrow> string" where
  "delimiter_scan opn cls json_str =
     (if str_contains [opn] json_str \<and> str_contains [cls] json_str then
        (let start = str_find [opn] json_str;
             stop = str_rfind [cls] json_str + 1
         in str_slice json_str start stop)
      else json_str)"

definition json_str_of :: "char \<Rightarrow> char \<Rightarrow> string \<Rightarrow> py_exception + string" where
  "json_str_of opn cls response =
     (case fence_step response of
        Inl e \<Rightarrow> Inl e
      | Inr json_str \<Rightarrow> Inr (delimiter_scan opn cls json_str))"

text \<open>
  \<open>json.loads\<close> belongs to the Python library: it is a parameter \<open>loads\<close>, giving the
  parsed value or the exception raised. The statements stand in a \<open>try\<close> whose handler
  \<open>except Exception as e\<close> shows the label followed by \<open>str(e)\<close>: the outcome is that
  message (\<open>Inl\<close>) or the parsed value (\<open>Inr\<close>). The model ends with the value
  \<open>json.loads\<close> returns; what the tabs then do with it (building a \<open>Curriculum\<close>,
  counting the recommendations) comes after the extraction.
\<close>

definition extract_json ::
  "string \<Rightarrow> char \<Rightarrow> char \<Rightarrow> (string \<Rightarrow> py_exception + 'v) \<Rightarrow> string \<Rightarrow> string + 'v" where
  "extract_json label opn cls loads response =
     (case json_str_of opn cls response of
        Inl e \<Rightarrow> Inl (label @ exc_str e)
      | Inr json_str \<Rightarrow>
          (case loads json_str of
             Inl e \<Rightarrow> Inl (label @ exc_str e)
           | Inr v \<Rightarrow> Inr v))"

definition tab2_json_str :: "string \<Rightarrow> py_exception + string" where
  "tab2_json_str = json_str_of CHR ''{'' CHR ''}''"

definition tab3_json_str :: "string \<Rightarrow> py_exception + string" where
  "tab3_json_str = json_str_of CHR ''['' CHR '']''"

definition tab2_extract :: "(string \<Rightarrow> py_exception + 'v) \<Rightarrow> string \<Rightarrow> string + 'v" where
  "tab2_extract = extract_json ''Generation failed: '' CHR ''{'' CHR ''}''"

definition tab3_extract :: "(string \<Rightarrow> py_exception + 'v) \<Rightarrow> string \<Rightarrow> string + 'v" where
  "tab3_extract = extract_json ''Recommendation failed: '' CHR ''['' CHR '']''"

text \<open>
  For the evaluations on concrete replies, the values \<open>json.loads\<close> returns and one
  instance of the parameter: it agrees with \<open>json.loads\<close> on the texts \<open>{}\<close>, \<open>[]\<close> and
  \<open>[{}]\<close> and on every text that does not begin a JSON value at its first character,
  and is applied to no other text.
\<close>

datatype json = JNull | JBool bool | JInt int | JString string | JArray "json list"
  | JObject "(string \<times> json) list"

definition loads_sample :: "string \<Rightarrow> py_exception + json" where
  "loads_sample s =
     (if s = ''{}'' then Inr (JObject [])
      else if s = ''[]'' then Inr (JArray [])
      else if s = ''[{}]'' then Inr (JArray [JObject []])
      else Inl (PyException ''JSONDecodeError'' ''Expecting value: line 1 column 1 (char 0)''))"

section \<open>The Gemini client (src/llm/client.py)\<close>

text \<open>
  What the program does to the outside world, in order: a call to the hosted model
  (\<open>client.models.generate_content\<close>), a printed diagnostic, a \<open>time.sleep\<close>. The
  printed lines are named by what they report rather than spelled out (two of them
  hold a warning sign that is not a code point below 256); each constructor below
  stands for the \<open>print\<close> statements of one place in the source.
\<close>

datatype notice =
    ClientInitialized string    \<comment> \<open>\<open>OK Gemini client initialized: {model_name}\<close> and the free-tier line\<close>
  | ApiError string             \<comment> \<open>\<open>ERROR Gemini API Error: {type(e).__name__}\<close>\<close>
  | ErrorDetails string         \<comment> \<open>\<open>Error details: {error_str}\<close>\<close>
  | QuotaExceeded               \<comment> \<open>the four \<open>QUOTA EXCEEDED\<close> lines\<close>
  | ModelNotFound string        \<comment> \<open>\<open>MODEL NOT FOUND: {self.model_name}\<close> and the hint after it\<close>
  | AttemptFailed nat string    \<comment> \<open>\<open>WARNING Attempt {attempt + 1} failed: {str(e)[:100]}\<close>\<close>
  | RetryingIn int              \<comment> \<open>\<open>Retrying in {wait_time}s...\<close>\<close>
  | AllAttemptsFailed int       \<comment> \<open>\<open>ERROR All {max_retries} attempts failed!\<close>\<close>
  | FinalError string           \<comment> \<open>\<open>Final error: {str(e)}\<close>\<close>

datatype effect = RemoteCall | Print notice | Sleep int

record client =
  api_key :: string
  model_name :: string

text \<open>
  \<open>GeminiClient.__init__\<close>. \<open>environ\<close> is the process environment once \<open>load_dotenv()\<close>
  has run; \<open>os.getenv\<close> gives \<open>None\<close> for a name that is not set, and \<open>not api_key\<close>
  holds for \<open>None\<close> and for the empty string. \<open>genai.Client(api_key=...)\<close> only stores
  the key.
\<close>

definition missing_key_message :: string where
  "missing_key_message =
     ''GOOGLE_API_KEY not found in environment variables. '' @
     ''Please create a .env file with your API key. '' @
     ''Get your key from: https://aistudio.google.com/apikey''"

definition default_model_name :: string where
  "default_model_name = ''models/gemini-2.5-flash''"

definition GeminiClient_init ::
  "(string \<rightharpoonup> string) \<Rightarrow> string \<Rightarrow> effect list \<times> (py_exception + client)" where
  "GeminiClient_init environ name =
     (case environ ''GOOGLE_API_KEY'' of
        None \<Rightarrow> ([], Inl (PyException ''ValueError'' missing_key_message))
      | Some key \<Rightarrow>
          if key = [] then ([], Inl (PyException ''ValueError'' missing_key_message))
          else ([Print (ClientInitialized name)],
                Inr \<lparr>api_key = key, model_name = name\<rparr>))"

text \<open>
  \<open>GeminiClient.generate\<close>. The hosted model is outside the program: \<open>outcome\<close> is what
  the one call of \<open>generate_content\<close> does, the reply text or the exception it raises.
  The request (model, prompt, temperature, token cap) goes to the library as it is and
  decides nothing in the program; the cap sent is \<open>max_output_tokens\<close>.
\<close>

definition max_output_tokens :: "int option \<Rightarrow> int" where
  "max_output_tokens max_tokens =
     (case max_tokens of None \<Rightarrow> 8192 | Some n \<Rightarrow> if n = 0 then 8192 else n)"

definition error_notices :: "client \<Rightarrow> string \<Rightarrow> notice list" where
  "error_notices self error_str =
     (if str_contains ''429'' error_str \<or> str_contains ''RESOURCE_EXHAUSTED'' error_str
      then [QuotaExceeded]
      else if str_contains ''404'' error_str \<or> str_contains ''not found'' (str_lower error_str)
      then [ModelNotFound (model_name self)]
      else [])"

definition generation_failed :: "string \<Rightarrow> py_exception" where
  "generation_failed error_str =
     PyException ''Exception'' (''Gemini generation failed: '' @ error_str)"

definition generate ::
  "client \<Rightarrow> py_exception + string \<Rightarrow> effect list \<times> (py_exception + string)" where
  "generate self outcome =
     (case outcome of
        Inr text \<Rightarrow> ([RemoteCall], Inr text)
      | Inl e \<Rightarrow>
          (let error_str = exc_str e in
           (RemoteCall # Print (ApiError (exc_type e)) # Print (ErrorDetails error_str) #
              map Print (error_notices self error_str),
            Inl (generation_failed error_str))))"

text \<open>
  \<open>GeminiClient.generate_with_retry\<close>: the loop \<open>for attempt in range(max_retries)\<close>.
  \<open>remote k\<close> is what the hosted model does at the call made in attempt \<open>k\<close> (counted
  from 0). The function returns the text, raises, or falls off the end of the loop,
  and then its value is Python's \<open>None\<close>: the result is a \<open>string option\<close>.
\<close>

function retry_loop ::
  "client \<Rightarrow> (nat \<Rightarrow> py_exception + string) \<Rightarrow> int \<Rightarrow> nat
     \<Rightarrow> effect list \<times> (py_exception + string option)" where
  "retry_loop self remote max_retries attempt =
     (if int attempt < max_retries then
        (case generate self (remote attempt) of
           (fx, Inr text) \<Rightarrow> (fx, Inr (Some text))
         | (fx, Inl e) \<Rightarrow>
             if int attempt < max_retries - 1 then
               (let wait_time = 2 ^ attempt;
                    rest = retry_loop self remote max_retries (Suc attempt)
                in (fx @ [Print (AttemptFailed (attempt + 1) (take 100 (exc_str e))),
                          Print (RetryingIn wait_time), Sleep wait_time] @ fst rest,
                    snd rest))
             else (fx @ [Print (AllAttemptsFailed max_retries), Print (FinalError (exc_str e))],
                   Inl e))
      else ([], Inr None))"
  by pat_completeness auto
termination
  by (relation "measure (\<lambda>(self, remote, max_retries, attempt). nat (max_retries - int attempt))")
     auto

text \<open>The keyword argument \<open>max_retries: int = 3\<close>: \<open>None\<close> is the call that leaves it out.\<close>

definition generate_with_retry ::
  "client \<Rightarrow> (nat \<Rightarrow> py_exception + string) \<Rightarrow> int option
     \<Rightarrow> effect list \<times> (py_exception + string option)" where
  "generate_with_retry self remote max_retries =
     retry_loop self remote (case max_retries of None \<Rightarrow> 3 | Some n \<Rightarrow> n) 0"

text \<open>
  The callers in Home.py (lines 376-377 and 465-466): build the client, then call
  \<open>generate_with_retry\<close> with \<open>max_retries\<close> left at its default, inside one \<open>try\<close>.
\<close>

definition Home_generate ::
  "(string \<rightharpoonup> string) \<Rightarrow> (nat \<Rightarrow> py_exception + string)
     \<Rightarrow> effect list \<times> (py_exception + string option)" where
  "Home_generate environ remote =
     (case GeminiClient_init environ default_model_name of
        (fx, Inl e) \<Rightarrow> (fx, Inl e)
      | (fx, Inr llm_client) \<Rightarrow>
          (let r = generate_with_retry llm_client remote None in (fx @ fst r, snd r)))"

text \<open>
  The health probe check_quota.py, lines 47-69: the handler of its own remote call
  prints one of four reports on the error text.
\<close>

datatype quota_report = QuotaExceededReport | InvalidApiKeyReport | ModelNotFoundReport
  | UnknownErrorReport

definition check_quota_report :: "string \<Rightarrow> quota_report" where
  "check_quota_report error_str =
     (if str_contains ''429'' error_str \<or> str_contains ''RESOURCE_EXHAUSTED'' error_str
      then QuotaExceededReport
      else if str_contains ''401'' error_str \<or> str_contains ''UNAUTHORIZED'' error_str
      then InvalidApiKeyReport
      else if str_contains ''404'' error_str then ModelNotFoundReport
      else UnknownErrorReport)"

text \<open>What a run did, read off its effects.\<close>

fun sleeps :: "effect list \<Rightarrow> int list" where
  "sleeps [] = []"
| "sleeps (Sleep t # fx) = t # sleeps fx"
| "sleeps (_ # fx) = sleeps fx"

fun calls :: "effect list \<Rightarrow> nat" where
  "calls [] = 0"
| "calls (RemoteCall # fx) = Suc (calls fx)"
| "calls (_ # fx) = calls fx"

fun is_print :: "effect \<Rightarrow> bool" where
  "is_print (Print _) = True"
| "is_print _ = False"

definition control :: "effect list \<Rightarrow> effect list" where
  "control fx = filter (\<lambda>x. \<not> is_print x) fx"

section \<open>Properties of the client\<close>

declare retry_loop.simps [simp del]

lemma retry_loop_exhausted:
  "\<not> int attempt < max_retries \<Longrightarrow> retry_loop self remote max_retries attempt = ([], Inr None)"
  by (subst retry_loop.simps) simp

text \<open>
  C10. With \<open>max_retries\<close> at most 0 the loop body never runs: no call is made, nothing
  is printed or slept, nothing is raised, and the value returned is \<open>None\<close>, not a text.
\<close>

theorem generate_with_retry_nonpositive:
  "max_retries \<le> 0 \<Longrightarrow>
     generate_with_retry self remote (Some max_retries) = ([], Inr None)"
  by (simp add: generate_with_retry_def retry_loop_exhausted)

theorem generate_with_retry_nonpositive_witness:
  "(0::int) \<le> 0 \<and>
   generate_with_retry \<lparr>api_key = ''k'', model_name = default_model_name\<rparr>
     (\<lambda>k. Inr ''reply'') (Some 0) = ([], Inr None)"
  using generate_with_retry_nonpositive
    [of 0 "\<lparr>api_key = ''k'', model_name = default_model_name\<rparr>" "\<lambda>k. Inr ''reply''"]
  by simp

lemma control_append: "control (fx @ fy) = control fx @ control fy"
  by (simp add: control_def)

lemma sleeps_append: "sleeps (fx @ fy) = sleeps fx @ sleeps fy"
  by (induction fx rule: sleeps.induct) auto

lemma calls_append: "calls (fx @ fy) = calls fx + calls fy"
  by (induction fx rule: calls.induct) auto

lemma sleeps_map_Print: "sleeps (map Print ns) = []"
  by (induction ns) auto

lemma calls_map_Print: "calls (map Print ns) = 0"
  by (induction ns) auto

lemma control_map_Print: "control (map Print ns) = []"
  by (induction ns) (auto simp: control_def)


lemma generate_Inr: "generate self (Inr text) = ([RemoteCall], Inr text)"
  by (simp add: generate_def Let_def)

lemma generate_Inl_snd: "snd (generate self (Inl e)) = Inl (generation_failed (exc_str e))"
  by (simp add: generate_def Let_def)

lemma generate_sleeps: "sleeps (fst (generate self out)) = []"
  by (cases out) (simp_all add: generate_def Let_def sleeps_map_Print)

lemma generate_calls: "calls (fst (generate self out)) = 1"
  by (cases out) (simp_all add: generate_def Let_def calls_map_Print)

lemma generate_control: "control (fst (generate self out)) = [RemoteCall]"
  by (cases out) (simp_all add: generate_def Let_def control_def)

lemma retry_loop_success:
  "int attempt < max_retries \<Longrightarrow> remote attempt = Inr text \<Longrightarrow>
   retry_loop self remote max_retries attempt = ([RemoteCall], Inr (Some text))"
  by (subst retry_loop.simps) (simp add: generate_def)

lemma retry_loop_retry:
  "int attempt < max_retries - 1 \<Longrightarrow> remote attempt = Inl e \<Longrightarrow>
   retry_loop self remote max_retries attempt =
     (fst (generate self (Inl e)) @
        [Print (AttemptFailed (attempt + 1) (take 100 (exc_str (generation_failed (exc_str e))))),
         Print (RetryingIn (2 ^ attempt)), Sleep (2 ^ attempt)] @
        fst (retry_loop self remote max_retries (Suc attempt)),
      snd (retry_loop self remote max_retries (Suc attempt)))"
  by (subst retry_loop.simps) (simp add: generate_def Let_def)

lemma retry_loop_last:
  "int attempt = max_retries - 1 \<Longrightarrow> remote attempt = Inl e \<Longrightarrow>
   retry_loop self remote max_retries attempt =
     (fst (generate self (Inl e)) @
        [Print (AllAttemptsFailed max_retries), Print (FinalError (exc_str (generation_failed (exc_str e))))],
      Inl (generation_failed (exc_str e)))"
  by (subst retry_loop.simps) (simp add: generate_def Let_def)

lemma retry_loop_all_fail:
  assumes fail: "\<And>k. remote k = Inl (errs k)"
  shows "int a < N \<Longrightarrow>
     calls (fst (retry_loop self remote N a)) = nat N - a \<and>
     sleeps (fst (retry_loop self remote N a)) = map (\<lambda>k. 2 ^ k) [a ..< nat (N - 1)] \<and>
     snd (retry_loop self remote N a) = Inl (generation_failed (exc_str (errs (nat (N - 1)))))"
proof (induction "nat (N - 1) - a" arbitrary: a)
  case 0
  then have last: "int a = N - 1" by linarith
  then have a: "a = nat (N - 1)" "nat N - a = Suc 0" by linarith+
  show ?case
    unfolding retry_loop_last [where remote = remote, OF last fail]
    using a by (simp add: calls_append sleeps_append generate_calls generate_sleeps)
next
  case (Suc d)
  then have more: "int a < N - 1" by linarith
  have d: "d = nat (N - 1) - Suc a" using Suc.hyps(2) by linarith
  have next_ok: "int (Suc a) < N" using more by linarith
  note IH = Suc.hyps(1) [OF d next_ok]
  have upt: "[a ..< nat (N - 1)] = a # [Suc a ..< nat (N - 1)]"
    using more by (simp add: upt_conv_Cons)
  have cnt: "Suc (nat N - Suc a) = nat N - a" using more by linarith
  show ?case
    unfolding retry_loop_retry [where remote = remote, OF more fail] upt
    using IH cnt
    by (simp add: calls_append sleeps_append generate_calls generate_sleeps)
qed

lemma str_lower_append: "str_lower (xs @ ys) = str_lower xs @ str_lower ys"
  by (simp add: str_lower_def)

lemma str_lower_prefix: "str_lower ''Gemini generation failed: '' = ''gemini generation failed: ''"
  by code_simp

lemma contains_429: "str_contains ''429'' (''Gemini generation failed: '' @ s) = str_contains ''429'' s"
  by simp
lemma contains_404: "str_contains ''404'' (''Gemini generation failed: '' @ s) = str_contains ''404'' s"
  by simp
lemma contains_RE: "str_contains ''RESOURCE_EXHAUSTED'' (''Gemini generation failed: '' @ s) = str_contains ''RESOURCE_EXHAUSTED'' s"
  by simp
lemma contains_nf: "str_contains ''not found'' (''gemini generation failed: '' @ s) = str_contains ''not found'' s"
  by simp

lemma error_notices_generation_failed:
  "error_notices self (exc_str (generation_failed error_str)) = error_notices self error_str"
  unfolding error_notices_def generation_failed_def py_exception.sel str_lower_append str_lower_prefix
    contains_429 contains_404 contains_RE contains_nf ..


lemma control_simps:
  "control [] = []"
  "control (RemoteCall # fx) = RemoteCall # control fx"
  "control (Sleep t # fx) = Sleep t # control fx"
  "control (Print n # fx) = control fx"
  by (simp_all add: control_def)

text \<open>
  C2. When the hosted model fails at the first two attempts and answers at the third,
  and \<open>max_retries\<close> is 3 (given, or left at its default), \<open>generate_with_retry\<close>
  returns the third attempt's text; it sleeps \<open>2^0\<close> and then \<open>2^1\<close>, each between two
  calls, and makes three calls.
\<close>

theorem retry_third_attempt_succeeds:
  assumes "remote 0 = Inl e1" and "remote 1 = Inl e2" and "remote 2 = Inr reply"
    and "max_retries = None \<or> max_retries = Some 3"
  shows "snd (generate_with_retry self remote max_retries) = Inr (Some reply) \<and>
         sleeps (fst (generate_with_retry self remote max_retries)) = [2 ^ 0, 2 ^ 1] \<and>
         control (fst (generate_with_retry self remote max_retries)) =
           [RemoteCall, Sleep (2 ^ 0), RemoteCall, Sleep (2 ^ 1), RemoteCall]"
proof -
  have budget: "(case max_retries of None \<Rightarrow> 3 | Some n \<Rightarrow> n) = (3::int)"
    using assms(4) by auto
  have third: "retry_loop self remote 3 2 = ([RemoteCall], Inr (Some reply))"
    using retry_loop_success [where remote = remote and attempt = 2 and max_retries = 3]
      assms(3) by simp
  have second: "retry_loop self remote 3 1 =
      (fst (generate self (Inl e2)) @
         [Print (AttemptFailed 2 (take 100 (exc_str (generation_failed (exc_str e2))))),
          Print (RetryingIn (2 ^ 1)), Sleep (2 ^ 1)] @ [RemoteCall],
       Inr (Some reply))"
    using retry_loop_retry [where remote = remote and attempt = 1 and max_retries = 3 and e = e2]
      assms(2) third by (simp add: numeral_2_eq_2)
  have first: "retry_loop self remote 3 0 =
      (fst (generate self (Inl e1)) @
         [Print (AttemptFailed 1 (take 100 (exc_str (generation_failed (exc_str e1))))),
          Print (RetryingIn (2 ^ 0)), Sleep (2 ^ 0)] @
         fst (retry_loop self remote 3 1),
       Inr (Some reply))"
    using retry_loop_retry [where remote = remote and attempt = 0 and max_retries = 3 and e = e1]
      assms(1) second by simp
  show ?thesis
    unfolding generate_with_retry_def budget first second
    by (simp add: sleeps_append control_append generate_sleeps generate_control control_simps)
qed

theorem retry_third_attempt_succeeds_witness:
  "snd (generate_with_retry \<lparr>api_key = ''k'', model_name = default_model_name\<rparr>
         (\<lambda>k. if k < 2 then Inl (PyException ''ServerError'' ''503 UNAVAILABLE'') else Inr ''{}'')
         None) = Inr (Some ''{}'') \<and>
   sleeps (fst (generate_with_retry \<lparr>api_key = ''k'', model_name = default_model_name\<rparr>
         (\<lambda>k. if k < 2 then Inl (PyException ''ServerError'' ''503 UNAVAILABLE'') else Inr ''{}'')
         None)) = [1, 2]"
  using retry_third_attempt_succeeds
    [of "\<lambda>k. if k < 2 then Inl (PyException ''ServerError'' ''503 UNAVAILABLE'') else Inr ''{}''"
        "PyException ''ServerError'' ''503 UNAVAILABLE''"
        "PyException ''ServerError'' ''503 UNAVAILABLE''" "''{}''" None
        "\<lparr>api_key = ''k'', model_name = default_model_name\<rparr>"]
  by simp

text \<open>
  C3. When the hosted model fails at every attempt and \<open>max_retries\<close> is \<open>N\<close>, at least 1,
  exactly \<open>N\<close> calls are made and \<open>generate_with_retry\<close> raises what \<open>generate\<close> raised at
  the last attempt, unchanged: the exception made from the last error's text, on which
  the diagnosis of \<open>generate\<close> is the one of the last error.
\<close>

theorem retry_exhausted_raises_last:
  assumes "\<forall>k. remote k = Inl (errs k)" and "0 < N"
  shows "calls (fst (generate_with_retry self remote (Some N))) = nat N \<and>
         snd (generate_with_retry self remote (Some N)) =
           map_sum id Some (snd (generate self (remote (nat (N - 1))))) \<and>
         snd (generate_with_retry self remote (Some N)) =
           Inl (generation_failed (exc_str (errs (nat (N - 1))))) \<and>
         error_notices self (exc_str (generation_failed (exc_str (errs (nat (N - 1)))))) =
           error_notices self (exc_str (errs (nat (N - 1))))"
proof -
  have fail: "\<And>k. remote k = Inl (errs k)" using assms(1) by simp
  have start: "int 0 < N" using assms(2) by simp
  note all = retry_loop_all_fail [where remote = remote and errs = errs, OF fail start]
  show ?thesis
    unfolding generate_with_retry_def option.case
    using all by (simp add: fail generate_Inl_snd error_notices_generation_failed)
qed

theorem retry_exhausted_raises_last_witness:
  "calls (fst (generate_with_retry \<lparr>api_key = ''k'', model_name = default_model_name\<rparr>
       (\<lambda>k. Inl (PyException ''ClientError'' ''429 RESOURCE_EXHAUSTED'')) (Some 4))) = 4 \<and>
   snd (generate_with_retry \<lparr>api_key = ''k'', model_name = default_model_name\<rparr>
       (\<lambda>k. Inl (PyException ''ClientError'' ''429 RESOURCE_EXHAUSTED'')) (Some 4)) =
     Inl (PyException ''Exception'' ''Gemini generation failed: 429 RESOURCE_EXHAUSTED'')"
  using retry_exhausted_raises_last
    [of "\<lambda>k. Inl (PyException ''ClientError'' ''429 RESOURCE_EXHAUSTED'')"
        "\<lambda>k. PyException ''ClientError'' ''429 RESOURCE_EXHAUSTED''" 4
        "\<lparr>api_key = ''k'', model_name = default_model_name\<rparr>"]
  by (simp add: generation_failed_def generate_def Let_def)

lemma retry_loop_until:
  assumes fails: "\<And>i. i < k \<Longrightarrow> isl (remote i)"
    and budget: "int k < N"
    and final: "\<not> isl (remote k) \<or> int k = N - 1"
  shows "a \<le> k \<Longrightarrow>
     control (fst (retry_loop self remote N a)) =
       concat (map (\<lambda>i. [RemoteCall, Sleep (2 ^ i)]) [a ..< k]) @ [RemoteCall] \<and>
     snd (retry_loop self remote N a) = map_sum id Some (snd (generate self (remote k)))"
proof (induction "k - a" arbitrary: a)
  case 0
  then have a: "a = k" by simp
  show ?case
  proof (cases "remote k")
    case (Inr reply)
    note ok = retry_loop_success [where remote = remote, OF budget Inr]
    show ?thesis by (simp add: a ok Inr generate_Inr control_simps)
  next
    case (Inl e)
    with final have last: "int k = N - 1" by simp
    show ?thesis
      unfolding a retry_loop_last [where remote = remote, OF last Inl]
      by (simp add: Inl control_append generate_control control_simps generate_Inl_snd)
  qed
next
  case (Suc d)
  then have less: "a < k" by simp
  from fails [OF less] obtain e where Inl: "remote a = Inl e"
    by (cases "remote a") auto
  have more: "int a < N - 1" using less budget by linarith
  have d: "d = k - Suc a" using Suc.hyps(2) by simp
  have next_ok: "Suc a \<le> k" using less by simp
  note IH = Suc.hyps(1) [OF d next_ok]
  have upt: "[a ..< k] = a # [Suc a ..< k]" using less by (simp add: upt_conv_Cons)
  show ?case
    unfolding retry_loop_retry [where remote = remote, OF more Inl] upt
    using IH by (simp add: control_append generate_control control_simps)
qed


text \<open>
  C9. The retry loop does not look at what failed. Let the attempts before attempt \<open>k\<close>
  fail, with any errors at all (a quota error, an invalid credential, a missing model,
  anything else), and let attempt \<open>k\<close> succeed or be the last the budget allows. Then
  every one of those failures is followed by a sleep and a further call: the calls and
  sleeps of the run are call, sleep \<open>2^0\<close>, call, sleep \<open>2^1\<close>, ..., sleep \<open>2^(k-1)\<close>, call,
  with nothing random in them, and the run ends as attempt \<open>k\<close> ends. A second run with
  other errors at the same attempts makes the same calls and sleeps.
\<close>

theorem retry_blind_to_classification:
  assumes "\<forall>i<k. isl (remote i) \<and> isl (remote' i)"
    and "int k < N"
    and "(\<not> isl (remote k) \<and> \<not> isl (remote' k)) \<or> int k = N - 1"
  shows "control (fst (generate_with_retry self remote (Some N))) =
           concat (map (\<lambda>i. [RemoteCall, Sleep (2 ^ i)]) [0 ..< k]) @ [RemoteCall] \<and>
         control (fst (generate_with_retry self remote' (Some N))) =
           control (fst (generate_with_retry self remote (Some N))) \<and>
         snd (generate_with_retry self remote (Some N)) =
           map_sum id Some (snd (generate self (remote k)))"
proof -
  have one: "\<And>i. i < k \<Longrightarrow> isl (remote i)" and two: "\<And>i. i < k \<Longrightarrow> isl (remote' i)"
    using assms(1) by auto
  have f1: "\<not> isl (remote k) \<or> int k = N - 1" and f2: "\<not> isl (remote' k) \<or> int k = N - 1"
    using assms(3) by auto
  have start: "0 \<le> k" by simp
  note r = retry_loop_until [where remote = remote, OF one assms(2) f1 start, of self]
  note r' = retry_loop_until [where remote = remote', OF two assms(2) f2 start, of self]
  show ?thesis
    unfolding generate_with_retry_def option.case using r r' by simp
qed

theorem retry_blind_to_classification_witness:
  "control (fst (generate_with_retry \<lparr>api_key = ''k'', model_name = default_model_name\<rparr>
       (\<lambda>k. Inl (PyException ''ClientError'' ''401 UNAUTHORIZED'')) (Some 3))) =
     [RemoteCall, Sleep 1, RemoteCall, Sleep 2, RemoteCall] \<and>
   control (fst (generate_with_retry \<lparr>api_key = ''k'', model_name = default_model_name\<rparr>
       (\<lambda>k. Inl (PyException ''ClientError'' ''429 RESOURCE_EXHAUSTED'')) (Some 3))) =
     [RemoteCall, Sleep 1, RemoteCall, Sleep 2, RemoteCall] \<and>
   snd (generate_with_retry \<lparr>api_key = ''k'', model_name = default_model_name\<rparr>
       (\<lambda>k. Inl (PyException ''ClientError'' ''401 UNAUTHORIZED'')) (Some 3)) =
     Inl (PyException ''Exception'' ''Gemini generation failed: 401 UNAUTHORIZED'')"
  using retry_blind_to_classification
    [of 2 "\<lambda>k. Inl (PyException ''ClientError'' ''401 UNAUTHORIZED'')"
        "\<lambda>k. Inl (PyException ''ClientError'' ''429 RESOURCE_EXHAUSTED'')" 3
        "\<lparr>api_key = ''k'', model_name = default_model_name\<rparr>"]
  by (simp add: generate_def Let_def generation_failed_def upt_rec numeral_2_eq_2)

text \<open>
  C5. With no key in the environment (the name is not set, or set to the empty string)
  the constructor raises \<open>ValueError\<close> at once: nothing is printed, no call is made.
  The callers then never reach \<open>generate_with_retry\<close>: the whole request makes no call
  and no sleep, and ends with that \<open>ValueError\<close>.
\<close>

theorem missing_credential_fatal:
  assumes "environ ''GOOGLE_API_KEY'' = None \<or> environ ''GOOGLE_API_KEY'' = Some []"
  shows "GeminiClient_init environ name = ([], Inl (PyException ''ValueError'' missing_key_message)) \<and>
         Home_generate environ remote = ([], Inl (PyException ''ValueError'' missing_key_message))"
  using assms by (auto simp: GeminiClient_init_def Home_generate_def)

theorem missing_credential_fatal_witness:
  "GeminiClient_init Map.empty default_model_name =
     ([], Inl (PyException ''ValueError'' missing_key_message)) \<and>
   Home_generate Map.empty (\<lambda>k. Inr ''{}'') =
     ([], Inl (PyException ''ValueError'' missing_key_message))"
  using missing_credential_fatal [of Map.empty default_model_name "\<lambda>k. Inr ''{}''"]
  by simp

text \<open>
  C4, as the code has it. On a failure of the call, \<open>generate\<close> prints the class name
  and the text of the error, then at most one notice: quota exceeded when the text holds
  \<open>429\<close> or \<open>RESOURCE_EXHAUSTED\<close>; otherwise model not found when it holds \<open>404\<close> or, in
  any case of letters, \<open>not found\<close>; otherwise none. It raises one uniform \<open>Exception\<close>
  whose text is \<open>Gemini generation failed: \<close> followed by the error's text, and the same
  tests on that text find the same notice.
\<close>

theorem generate_failure_signal:
  "generate self (Inl e) =
     (RemoteCall # Print (ApiError (exc_type e)) # Print (ErrorDetails (exc_str e)) #
        map Print (error_notices self (exc_str e)),
      Inl (PyException ''Exception'' (''Gemini generation failed: '' @ exc_str e))) \<and>
   (str_contains ''429'' (exc_str e) \<or> str_contains ''RESOURCE_EXHAUSTED'' (exc_str e) \<longrightarrow>
      error_notices self (exc_str e) = [QuotaExceeded]) \<and>
   (\<not> str_contains ''429'' (exc_str e) \<and> \<not> str_contains ''RESOURCE_EXHAUSTED'' (exc_str e) \<and>
    (str_contains ''404'' (exc_str e) \<or> str_contains ''not found'' (str_lower (exc_str e))) \<longrightarrow>
      error_notices self (exc_str e) = [ModelNotFound (model_name self)]) \<and>
   (\<not> str_contains ''429'' (exc_str e) \<and> \<not> str_contains ''RESOURCE_EXHAUSTED'' (exc_str e) \<and>
    \<not> str_contains ''404'' (exc_str e) \<and> \<not> str_contains ''not found'' (str_lower (exc_str e)) \<longrightarrow>
      error_notices self (exc_str e) = []) \<and>
   error_notices self (''Gemini generation failed: '' @ exc_str e) = error_notices self (exc_str e)"
proof -
  have run: "generate self (Inl e) =
     (RemoteCall # Print (ApiError (exc_type e)) # Print (ErrorDetails (exc_str e)) #
        map Print (error_notices self (exc_str e)),
      Inl (PyException ''Exception'' (''Gemini generation failed: '' @ exc_str e)))"
    unfolding generate_def generation_failed_def Let_def sum.case ..
  have quota: "str_contains ''429'' (exc_str e) \<or> str_contains ''RESOURCE_EXHAUSTED'' (exc_str e) \<longrightarrow>
      error_notices self (exc_str e) = [QuotaExceeded]"
    by (simp add: error_notices_def)
  have missing: "\<not> str_contains ''429'' (exc_str e) \<and> \<not> str_contains ''RESOURCE_EXHAUSTED'' (exc_str e) \<and>
    (str_contains ''404'' (exc_str e) \<or> str_contains ''not found'' (str_lower (exc_str e))) \<longrightarrow>
      error_notices self (exc_str e) = [ModelNotFound (model_name self)]"
    by (simp add: error_notices_def)
  have other: "\<not> str_contains ''429'' (exc_str e) \<and> \<not> str_contains ''RESOURCE_EXHAUSTED'' (exc_str e) \<and>
    \<not> str_contains ''404'' (exc_str e) \<and> \<not> str_contains ''not found'' (str_lower (exc_str e)) \<longrightarrow>
      error_notices self (exc_str e) = []"
    by (simp add: error_notices_def)
  have same: "error_notices self (''Gemini generation failed: '' @ exc_str e) = error_notices self (exc_str e)"
    using error_notices_generation_failed [of self "exc_str e"]
    unfolding generation_failed_def py_exception.sel .
  from run quota missing other same show ?thesis by (intro conjI)
qed

text \<open>
  C4 as stated fails: \<open>generate\<close> has no class for an invalid credential. The error
  text \<open>401 UNAUTHORIZED\<close>, which the health probe reports as an invalid key, gets no
  notice from \<open>generate\<close>, as an error of no known kind does, and the exception raised
  is a plain \<open>Exception\<close> made from the error's text.
\<close>

theorem generate_unauthorized_counterexample:
  "check_quota_report ''401 UNAUTHORIZED'' = InvalidApiKeyReport \<and>
   check_quota_report ''connection reset'' = UnknownErrorReport \<and>
   error_notices \<lparr>api_key = ''k'', model_name = default_model_name\<rparr> ''401 UNAUTHORIZED'' = [] \<and>
   error_notices \<lparr>api_key = ''k'', model_name = default_model_name\<rparr> ''connection reset'' = [] \<and>
   generate \<lparr>api_key = ''k'', model_name = default_model_name\<rparr>
       (Inl (PyException ''ClientError'' ''401 UNAUTHORIZED'')) =
     ([RemoteCall, Print (ApiError ''ClientError''), Print (ErrorDetails ''401 UNAUTHORIZED'')],
      Inl (PyException ''Exception'' ''Gemini generation failed: 401 UNAUTHORIZED''))"
  by code_simp

theorem generate_failure_signal_witness:
  "generate \<lparr>api_key = ''k'', model_name = default_model_name\<rparr>
       (Inl (PyException ''ClientError'' ''429 RESOURCE_EXHAUSTED'')) =
     ([RemoteCall, Print (ApiError ''ClientError''), Print (ErrorDetails ''429 RESOURCE_EXHAUSTED''),
       Print QuotaExceeded],
      Inl (PyException ''Exception'' ''Gemini generation failed: 429 RESOURCE_EXHAUSTED'')) \<and>
   generate \<lparr>api_key = ''k'', model_name = default_model_name\<rparr>
       (Inl (PyException ''ClientError'' ''Model Not Found'')) =
     ([RemoteCall, Print (ApiError ''ClientError''), Print (ErrorDetails ''Model Not Found''),
       Print (ModelNotFound default_model_name)],
      Inl (PyException ''Exception'' ''Gemini generation failed: Model Not Found'')) \<and>
   generate \<lparr>api_key = ''k'', model_name = default_model_name\<rparr>
       (Inl (PyException ''ConnectionError'' ''connection reset'')) =
     ([RemoteCall, Print (ApiError ''ConnectionError''), Print (ErrorDetails ''connection reset'')],
      Inl (PyException ''Exception'' ''Gemini generation failed: connection reset''))"
proof -
  have lower: "str_lower ''Model Not Found'' = ''model not found''"
    "str_lower ''connection reset'' = ''connection reset''"
    by code_simp+
  note quota = generate_failure_signal
    [of "\<lparr>api_key = ''k'', model_name = default_model_name\<rparr>"
        "PyException ''ClientError'' ''429 RESOURCE_EXHAUSTED''"]
  note missing = generate_failure_signal
    [of "\<lparr>api_key = ''k'', model_name = default_model_name\<rparr>"
        "PyException ''ClientError'' ''Model Not Found''"]
  note other = generate_failure_signal
    [of "\<lparr>api_key = ''k'', model_name = default_model_name\<rparr>"
        "PyException ''ConnectionError'' ''connection reset''"]
  from quota missing other show ?thesis
    by (simp add: lower)
qed

section \<open>Properties of the extraction\<close>

declare splits.simps [simp del]

lemma str_contains_sublist: "str_contains sub s = sublist sub s"
  by (induction s) (simp_all add: sublist_Cons_right)

lemma str_contains_char: "str_contains [c] s = (c \<in> set s)"
  by (induction s) auto

lemma str_contains_mono: "sublist s t \<Longrightarrow> str_contains sub s \<Longrightarrow> str_contains sub t"
  unfolding str_contains_sublist by (rule sublist_order.order.trans)


lemma splits_prefix: "sep \<noteq> [] \<Longrightarrow> splits sep (sep @ rest) = [] # splits sep rest"
  by (subst splits.simps) simp

lemma splits_step:
  "sep \<noteq> [] \<Longrightarrow> \<not> prefix sep (c # cs) \<Longrightarrow>
   splits sep (c # cs) = (case splits sep cs of p # ps \<Rightarrow> (c # p) # ps | [] \<Rightarrow> [[c]])"
  by (subst splits.simps) (simp split: list.splits)

lemma splits_nonempty: "splits sep s \<noteq> []"
proof (induction sep s rule: splits.induct)
  case (1 sep s)
  show ?case
    using 1 by (subst splits.simps) (auto split: list.splits)
qed



lemma splits_contains_length:
  "sep \<noteq> [] \<Longrightarrow> str_contains sep s \<Longrightarrow> 2 \<le> length (splits sep s)"
proof (induction s)
  case Nil
  then show ?case by simp
next
  case (Cons c cs)
  show ?case
  proof (cases "prefix sep (c # cs)")
    case True
    then obtain rest where "c # cs = sep @ rest" by (auto simp: prefix_def)
    then show ?thesis
      using splits_prefix [OF Cons.prems(1), of rest] splits_nonempty [of sep rest]
      by (cases "splits sep rest") simp_all
  next
    case False
    with Cons.prems(2) have "str_contains sep cs" by simp
    from Cons.IH [OF Cons.prems(1) this] have "2 \<le> length (splits sep cs)" .
    then show ?thesis
      using splits_step [OF Cons.prems(1) False] by (cases "splits sep cs") simp_all
  qed
qed


lemma dropWhile_keep: "\<not> P c \<Longrightarrow> dropWhile P (a @ c # r) = dropWhile P a @ c # r"
  by (induction a) auto

lemma str_strip_middle:
  assumes "f \<noteq> []" and "\<not> isspace (hd f)" and "\<not> isspace (last f)"
  shows "str_strip (a @ f @ b) =
           dropWhile isspace a @ f @ rev (dropWhile isspace (rev b))"
proof -
  obtain c r where f: "f = c # r" using assms(1) by (cases f) auto
  obtain g l where g: "f = g @ [l]" using assms(1) by (cases f rule: rev_cases) auto
  have l: "\<not> isspace l" using assms(3) g by simp
  have "dropWhile isspace (a @ c # (r @ b)) = dropWhile isspace a @ c # (r @ b)"
    using assms(2) f by (intro dropWhile_keep) simp
  then have front: "dropWhile isspace (a @ f @ b) = dropWhile isspace a @ f @ b"
    by (simp add: f)
  have shape: "rev (dropWhile isspace a @ f @ b) = rev b @ l # (rev g @ rev (dropWhile isspace a))"
    by (simp add: g)
  have rear: "dropWhile isspace (rev (dropWhile isspace a @ f @ b)) =
      dropWhile isspace (rev b) @ l # (rev g @ rev (dropWhile isspace a))"
    unfolding shape using l by (rule dropWhile_keep)
  show ?thesis
    unfolding str_strip_def front rear by (simp add: g)
qed

lemma rstrip_prefix: "prefix (rev (dropWhile isspace (rev b))) b"
proof -
  have "suffix (dropWhile isspace (rev b)) (rev b)" by (rule suffix_dropWhile)
  then show ?thesis by (simp add: suffix_to_prefix)
qed

lemma str_strip_sublist: "sublist (str_strip s) s"
proof -
  have "sublist (dropWhile isspace s) s"
    using suffix_dropWhile [of isspace s] by (rule suffix_imp_sublist)
  moreover have "sublist (rev (dropWhile isspace (rev (dropWhile isspace s)))) (dropWhile isspace s)"
    using rstrip_prefix [of "dropWhile isspace s"] by (rule prefix_imp_sublist)
  ultimately show ?thesis
    unfolding str_strip_def by (rule sublist_order.order.trans [rotated])
qed


lemma not_isspace_brackets:
  "\<not> isspace CHR ''{''" "\<not> isspace CHR ''}''" "\<not> isspace CHR ''[''" "\<not> isspace CHR '']''"
  by (simp_all add: isspace_def)

lemma str_find_first: "c \<notin> set pre \<Longrightarrow> str_find [c] (pre @ c # rest) = int (length pre)"
  by (induction pre) (auto simp: Let_def)

lemma str_rfind_absent: "c \<notin> set s \<Longrightarrow> str_rfind [c] s = - 1"
  by (induction s) (auto simp: Let_def)

lemma str_rfind_last: "c \<notin> set post \<Longrightarrow> str_rfind [c] (xs @ c # post) = int (length xs)"
  by (induction xs) (auto simp: Let_def str_rfind_absent)

lemma str_slice_middle:
  "str_slice (a @ m @ b) (int (length a)) (int (length a + length m)) = m"
  by (simp add: str_slice_def Let_def)

lemma delimiter_scan_span:
  assumes "opn \<notin> set pre" and "cls \<notin> set post"
  shows "delimiter_scan opn cls (pre @ opn # mid @ cls # post) = opn # mid @ [cls]"
proof -
  let ?t = "pre @ opn # mid @ cls # post"
  have start: "str_find [opn] ?t = int (length pre)"
    using assms(1) by (rule str_find_first)
  have "str_rfind [cls] ((pre @ opn # mid) @ cls # post) = int (length (pre @ opn # mid))"
    using assms(2) by (rule str_rfind_last)
  then have stop: "str_rfind [cls] ?t + 1 = int (length pre + length (opn # mid @ [cls]))"
    by simp
  have "str_slice (pre @ (opn # mid @ [cls]) @ post) (int (length pre))
          (int (length pre + length (opn # mid @ [cls]))) = opn # mid @ [cls]"
    by (rule str_slice_middle)
  then have "str_slice ?t (str_find [opn] ?t) (str_rfind [cls] ?t + 1) = opn # mid @ [cls]"
    unfolding start stop by simp
  then show ?thesis
    by (simp add: delimiter_scan_def str_contains_char Let_def)
qed


lemma delimiter_scan_absent:
  "opn \<notin> set t \<or> cls \<notin> set t \<Longrightarrow> delimiter_scan opn cls t = t"
  by (auto simp: delimiter_scan_def str_contains_char)


lemma fence_sublist_tagged: "sublist ''```'' ''```json''"
  by (rule prefix_imp_sublist) simp


lemma two_elements: "2 \<le> length xs \<Longrightarrow> \<exists>x y ys. xs = x # y # ys"
  by (cases xs; cases "tl xs") auto






lemma unfenced_fence_step:
  assumes "\<not> str_contains ''```'' response"
  shows "fence_step response = Inr (str_strip response)"
proof -
  have no_fence: "\<not> str_contains ''```'' (str_strip response)"
    using assms str_contains_mono [OF str_strip_sublist] by blast
  have "sublist ''```'' ''```json''" by (rule fence_sublist_tagged)
  then have "str_contains ''```json'' (str_strip response) \<Longrightarrow> str_contains ''```'' (str_strip response)"
    unfolding str_contains_sublist by (rule sublist_order.order.trans)
  with no_fence have no_tag: "\<not> str_contains ''```json'' (str_strip response)" by blast
  show ?thesis
    unfolding fence_step_def Let_def using no_fence no_tag by simp
qed

lemma fence_step_total: "\<exists>json_str. fence_step response = Inr json_str"
proof (cases "str_contains ''```json'' (str_strip response)")
  case True
  then have "2 \<le> length (splits ''```json'' (str_strip response))"
    by (intro splits_contains_length) simp_all
  then obtain x y ys where tagged: "splits ''```json'' (str_strip response) = x # y # ys"
    using two_elements by blast
  obtain b bs where pieces: "splits ''```'' y = b # bs"
    using splits_nonempty [of "''```''" y] by (cases "splits ''```'' y") auto
  show ?thesis
    unfolding fence_step_def Let_def using True
    by (simp add: str_split_def tagged pieces list_index_def)
next
  case False
  show ?thesis
  proof (cases "str_contains ''```'' (str_strip response)")
    case True
    then have two: "2 \<le> length (splits ''```'' (str_strip response))"
      by (intro splits_contains_length) simp_all
    show ?thesis
      unfolding fence_step_def Let_def using False True two
      by (simp add: str_split_def list_index_def)
  next
    case no_fence: False
    show ?thesis
      unfolding fence_step_def Let_def using False no_fence by simp
  qed
qed

lemma extract_json_loads:
  "json_str_of opn cls response = Inr s \<Longrightarrow>
   extract_json label opn cls loads response =
     (case loads s of Inl e \<Rightarrow> Inl (label @ exc_str e) | Inr v \<Rightarrow> Inr v)"
  by (simp add: extract_json_def)

lemma json_str_of_scan:
  "fence_step response = Inr t \<Longrightarrow> json_str_of opn cls response = Inr (delimiter_scan opn cls t)"
  by (simp add: json_str_of_def)

text \<open>
  C1, as the code has it. The statements never raise out of their \<open>try\<close>: the fences
  and the scan always give a text (no index is out of range), and the outcome is the
  value \<open>json.loads\<close> returns for it, or the label followed by the text of the error
  \<open>json.loads\<close> raised. When the fenced text lacks one of the two bounding characters
  it is parsed as it is: the code has no outcome of its own for missing delimiters.
\<close>

theorem extraction_outcome:
  "\<exists>t s. fence_step response = Inr t \<and>
          json_str_of opn cls response = Inr s \<and>
          s = delimiter_scan opn cls t \<and>
          (opn \<notin> set t \<or> cls \<notin> set t \<longrightarrow> s = t) \<and>
          extract_json label opn cls loads response =
            (case loads s of Inl e \<Rightarrow> Inl (label @ exc_str e) | Inr v \<Rightarrow> Inr v)"
proof -
  obtain t where t: "fence_step response = Inr t"
    using fence_step_total by blast
  note s = json_str_of_scan [OF t, of opn cls]
  have "opn \<notin> set t \<or> cls \<notin> set t \<longrightarrow> delimiter_scan opn cls t = t"
    using delimiter_scan_absent by blast
  with t s extract_json_loads [OF s] show ?thesis by blast
qed

theorem extraction_outcome_witness:
  "tab3_extract loads_sample ''Sorry, I cannot help with that.'' =
     Inl ''Recommendation failed: Expecting value: line 1 column 1 (char 0)''"
proof -
  have kept: "json_str_of CHR ''['' CHR '']'' ''Sorry, I cannot help with that.'' =
      Inr ''Sorry, I cannot help with that.''"
    by code_simp
  from extraction_outcome
    [of "''Sorry, I cannot help with that.''" "CHR ''[''" "CHR '']''" "''Recommendation failed: ''"
        loads_sample]
  obtain s where "json_str_of CHR ''['' CHR '']'' ''Sorry, I cannot help with that.'' = Inr s"
    and "extract_json ''Recommendation failed: '' CHR ''['' CHR '']'' loads_sample
           ''Sorry, I cannot help with that.'' =
         (case loads_sample s of Inl e \<Rightarrow> Inl (''Recommendation failed: '' @ exc_str e)
          | Inr v \<Rightarrow> Inr v)"
    by blast
  with kept show ?thesis
    by (simp add: tab3_extract_def loads_sample_def)
qed

text \<open>
  C1 as stated fails. The reply \<open>{}\<close> holds neither \<open>[\<close> nor \<open>]\<close>, and the recommender
  tab's extraction succeeds on it with the empty object. And where extraction does
  fail for want of delimiters, the failure is the parser's own error.
\<close>

theorem extraction_no_delimiters_counterexample:
  "CHR ''['' \<notin> set ''{}'' \<and> CHR '']'' \<notin> set ''{}'' \<and>
   tab3_extract loads_sample ''{}'' = Inr (JObject []) \<and>
   tab2_extract loads_sample ''Sorry, I cannot help with that.'' =
     Inl ''Generation failed: Expecting value: line 1 column 1 (char 0)''"
  by code_simp







text \<open>
  C8. A reply with no fence in it, in either tab: the text parsed is the slice of the
  stripped reply from the first opening bounding character to the last closing one,
  both included. So when the reply is some prose free of the opening character, then a
  text from that character to the closing one, then some prose free of the closing
  character, exactly that text is parsed and the outcome is what \<open>json.loads\<close> makes
  of it.
\<close>

theorem unfenced_reply_first_to_last:
  assumes "\<not> str_contains ''```'' response"
    and "(opn, cls) = (CHR ''{'', CHR ''}'') \<or> (opn, cls) = (CHR ''['', CHR '']'')"
    and "response = pre @ opn # mid @ cls # post"
    and "opn \<notin> set pre" and "cls \<notin> set post"
  shows "json_str_of opn cls response =
           Inr (str_slice (str_strip response) (str_find [opn] (str_strip response))
                  (str_rfind [cls] (str_strip response) + 1)) \<and>
         json_str_of opn cls response = Inr (opn # mid @ [cls]) \<and>
         extract_json label opn cls loads response =
           (case loads (opn # mid @ [cls]) of
              Inl e \<Rightarrow> Inl (label @ exc_str e) | Inr v \<Rightarrow> Inr v)"
proof -
  define pre' where "pre' = dropWhile isspace pre"
  define post' where "post' = rev (dropWhile isspace (rev post))"
  have solid: "\<not> isspace opn" "\<not> isspace cls"
    using assms(2) not_isspace_brackets by auto
  have stripped: "str_strip response = pre' @ opn # mid @ cls # post'"
    using str_strip_middle [of "opn # mid @ [cls]" pre post] solid
    by (simp add: assms(3) pre'_def post'_def)
  have "set pre' \<subseteq> set pre"
    unfolding pre'_def by (rule set_mono_suffix) (rule suffix_dropWhile)
  with assms(4) have first_open: "opn \<notin> set pre'" by blast
  have "set post' \<subseteq> set post"
    unfolding post'_def by (rule set_mono_prefix) (rule rstrip_prefix)
  with assms(5) have last_close: "cls \<notin> set post'" by blast
  note t = unfenced_fence_step [OF assms(1)]
  note s = json_str_of_scan [OF t, of opn cls]
  have span: "delimiter_scan opn cls (str_strip response) = opn # mid @ [cls]"
    unfolding stripped using first_open last_close by (rule delimiter_scan_span)
  have both: "str_contains [opn] (str_strip response) \<and> str_contains [cls] (str_strip response)"
    unfolding stripped by (simp add: str_contains_char)
  then have slice: "delimiter_scan opn cls (str_strip response) =
      str_slice (str_strip response) (str_find [opn] (str_strip response))
        (str_rfind [cls] (str_strip response) + 1)"
    by (simp add: delimiter_scan_def Let_def)
  have one: "json_str_of opn cls response = Inr (opn # mid @ [cls])"
    using s span by simp
  have two: "json_str_of opn cls response =
           Inr (str_slice (str_strip response) (str_find [opn] (str_strip response))
                  (str_rfind [cls] (str_strip response) + 1))"
    using s slice by simp
  from two one extract_json_loads [OF one, of label loads] show ?thesis
    by (intro conjI)
qed

theorem unfenced_reply_first_to_last_witness:
  "tab2_json_str ''Plan: {} done'' = Inr ''{}'' \<and>
   tab2_extract loads_sample ''Plan: {} done'' = Inr (JObject [])"
  using unfenced_reply_first_to_last
    [of "''Plan: {} done''" "CHR ''{''" "CHR ''}''" "''Plan: ''" "[]" "'' done''"
        "''Generation failed: ''" loads_sample]
  by code_simp

end
